theory Spec2Isabelle
  imports Complex_Main
begin

section \<open>JavaScript strings and numbers used by the rule engine\<close>

text \<open>
  A string is a list of code units; the model covers the code units U+0000 to U+00FF,
  one \<^typ>\<open>char\<close> each. On that range the white space and line terminators that
  \<^verbatim>\<open>String.prototype.trim\<close>, \<^verbatim>\<open>parseFloat\<close> and \<^verbatim>\<open>parseInt\<close> strip are
  TAB, LF, VT, FF, CR, SPACE and NBSP.
\<close>

definition isWhiteSpace :: "char \<Rightarrow> bool" where
  "isWhiteSpace c = (of_char c \<in> {9, 10, 11, 12, 13, 32, 160 :: nat})"

definition trimStart :: "string \<Rightarrow> string" where
  "trimStart s = dropWhile isWhiteSpace s"

definition trim :: "string \<Rightarrow> string" where
  "trim s = rev (dropWhile isWhiteSpace (rev (dropWhile isWhiteSpace s)))"

text \<open>
  \<^verbatim>\<open>toLowerCase\<close> on the same range: A to Z, and U+00C0 to U+00DE except the
  multiplication sign U+00D7, move up by 32; every other code unit is unchanged.
\<close>

definition toLowerChar :: "char \<Rightarrow> char" where
  "toLowerChar c =
     (let n = (of_char c :: nat)
      in if (65 \<le> n \<and> n \<le> 90) \<or> (192 \<le> n \<and> n \<le> 222 \<and> n \<noteq> 215)
         then char_of (n + 32) else c)"

definition toLowerCase :: "string \<Rightarrow> string" where
  "toLowerCase s = map toLowerChar s"

text \<open>\<^verbatim>\<open>s.split(",")\<close>: the pieces between commas, empty pieces kept; never empty.\<close>

fun split_comma :: "string \<Rightarrow> string list" where
  "split_comma [] = [[]]"
| "split_comma (c # cs) =
     (if c = CHR '','' then [] # split_comma cs
      else (case split_comma cs of
              [] \<Rightarrow> [[c]]
            | w # ws \<Rightarrow> (c # w) # ws))"

text \<open>\<^verbatim>\<open>pieces.join(",")\<close>, to say what the split undoes.\<close>

fun join_comma :: "string list \<Rightarrow> string" where
  "join_comma [] = []"
| "join_comma [x] = x"
| "join_comma (x # y # ys) = x @ CHR '','' # join_comma (y # ys)"

text \<open>
  A JavaScript number is NaN, an infinity or a finite value. Finite values are kept
  exact (a rational); rounding to the nearest double is not modelled, and the two zeros
  are one value, as they are for \<^verbatim>\<open>>\<close>, \<^verbatim>\<open><\<close> and \<^verbatim>\<open>===\<close>.
\<close>

datatype jsnum = NaN | Fin rat | PosInf | NegInf

fun num_lt :: "jsnum \<Rightarrow> jsnum \<Rightarrow> bool" where
  "num_lt (Fin x) (Fin y) = (x < y)"
| "num_lt (Fin x) PosInf = True"
| "num_lt NegInf (Fin y) = True"
| "num_lt NegInf PosInf = True"
| "num_lt _ _ = False"

definition num_gt :: "jsnum \<Rightarrow> jsnum \<Rightarrow> bool" where
  "num_gt a b = num_lt b a"

definition num_eq :: "jsnum \<Rightarrow> jsnum \<Rightarrow> bool" where
  "num_eq a b = (a \<noteq> NaN \<and> a = b)"

definition isNaN :: "jsnum \<Rightarrow> bool" where
  "isNaN x = (x = NaN)"

definition isDigit :: "char \<Rightarrow> bool" where
  "isDigit c = (48 \<le> (of_char c :: nat) \<and> (of_char c :: nat) \<le> 57)"

definition digitVal :: "char \<Rightarrow> nat" where
  "digitVal c = of_char c - 48"

text \<open>The value of a run of decimal digits, most significant first.\<close>

definition digitsVal :: "string \<Rightarrow> nat" where
  "digitsVal ds = foldl (\<lambda>acc c. 10 * acc + digitVal c) 0 ds"

text \<open>
  An optional exponent part \<^verbatim>\<open>e\<close> or \<^verbatim>\<open>E\<close>, an optional sign, at least one digit.
  Anything else is not part of the literal and the exponent is 0.
\<close>

definition exponentPart :: "string \<Rightarrow> int" where
  "exponentPart s =
     (case s of
        [] \<Rightarrow> 0
      | c # r \<Rightarrow>
          if c = CHR ''e'' \<or> c = CHR ''E'' then
            (case r of
               [] \<Rightarrow> 0
             | d # r' \<Rightarrow>
                 if d = CHR ''+'' then
                   (if takeWhile isDigit r' = [] then 0
                    else int (digitsVal (takeWhile isDigit r')))
                 else if d = CHR ''-'' then
                   (if takeWhile isDigit r' = [] then 0
                    else - int (digitsVal (takeWhile isDigit r')))
                 else
                   (if takeWhile isDigit r = [] then 0
                    else int (digitsVal (takeWhile isDigit r))))
          else 0)"

definition pow10 :: "int \<Rightarrow> rat" where
  "pow10 e = (if 0 \<le> e then 10 ^ nat e else 1 / 10 ^ nat (- e))"

text \<open>
  The longest prefix that is an unsigned \<^verbatim>\<open>StrDecimalLiteral\<close>:
  \<^verbatim>\<open>Infinity\<close>, or digits with an optional fraction, or a fraction with at least one
  digit, each with an optional exponent part. No such prefix gives NaN.
\<close>

definition unsignedLiteral :: "string \<Rightarrow> jsnum" where
  "unsignedLiteral s =
     (if take 8 s = ''Infinity'' then PosInf
      else
        (let ip = takeWhile isDigit s; r = dropWhile isDigit s
         in case r of
              [] \<Rightarrow> if ip = [] then NaN else Fin (of_nat (digitsVal ip))
            | c # r' \<Rightarrow>
                if c = CHR ''.'' then
                  (let fp = takeWhile isDigit r'; r'' = dropWhile isDigit r'
                   in if ip = [] \<and> fp = [] then NaN
                      else Fin (of_nat (digitsVal (ip @ fp))
                                * pow10 (exponentPart r'' - int (length fp))))
                else if ip = [] then NaN
                else Fin (of_nat (digitsVal ip) * pow10 (exponentPart r))))"

definition negate :: "jsnum \<Rightarrow> jsnum" where
  "negate x = (case x of NaN \<Rightarrow> NaN | Fin q \<Rightarrow> Fin (- q) | PosInf \<Rightarrow> NegInf | NegInf \<Rightarrow> PosInf)"

definition parseFloat :: "string \<Rightarrow> jsnum" where
  "parseFloat s =
     (case trimStart s of
        [] \<Rightarrow> NaN
      | c # r \<Rightarrow>
          if c = CHR ''-'' then negate (unsignedLiteral r)
          else if c = CHR ''+'' then unsignedLiteral r
          else unsignedLiteral (c # r))"

text \<open>
  \<^verbatim>\<open>parseInt(s, 10)\<close>: leading white space, an optional sign, then the longest run
  of decimal digits; NaN when that run is empty.
\<close>

definition parseInt10 :: "string \<Rightarrow> jsnum" where
  "parseInt10 s =
     (let t = trimStart s;
          neg = (t \<noteq> [] \<and> hd t = CHR ''-'');
          u = (if t \<noteq> [] \<and> (hd t = CHR ''+'' \<or> hd t = CHR ''-'') then tl t else t);
          z = takeWhile isDigit u
      in if z = [] then NaN
         else if neg then Fin (- of_nat (digitsVal z))
         else Fin (of_nat (digitsVal z)))"

section \<open>Rules and the evaluation record (app/lib/productRules.server.ts)\<close>

text \<open>
  \<^verbatim>\<open>field\<close> and \<^verbatim>\<open>operator\<close> are TEXT columns read back from the store; the
  \<^verbatim>\<open>switch\<close> statements compare them as strings and have a \<^verbatim>\<open>default\<close> branch, so
  they are strings here.
\<close>

record ProductRule =
  rule_id :: string
  shopId :: string
  field :: string
  operator :: string
  rule_value :: string
  tag :: string
  enabled :: bool
  createdAt :: nat

text \<open>\<^verbatim>\<open>null\<close> and \<^verbatim>\<open>undefined\<close> are both \<^const>\<open>None\<close>: the code tests them with \<^verbatim>\<open>== null\<close>.\<close>

record ProductForEvaluation =
  price :: "jsnum option"
  totalInventory :: "jsnum option"
  vendor :: "string option"

definition compareNumeric :: "jsnum \<Rightarrow> jsnum \<Rightarrow> string \<Rightarrow> bool" where
  "compareNumeric actual target op =
     (if op = ''gt'' then num_gt actual target
      else if op = ''lt'' then num_lt actual target
      else if op = ''eq'' then num_eq actual target
      else False)"

definition evaluateSingleRule :: "ProductForEvaluation \<Rightarrow> ProductRule \<Rightarrow> bool" where
  "evaluateSingleRule product rule =
     (if field rule = ''price'' then
        (case price product of
           None \<Rightarrow> False
         | Some p \<Rightarrow>
             (let target = parseFloat (rule_value rule)
              in if isNaN target then False
                 else compareNumeric p target (operator rule)))
      else if field rule = ''inventory'' then
        (case totalInventory product of
           None \<Rightarrow> False
         | Some n \<Rightarrow>
             (let target = parseInt10 (rule_value rule)
              in if isNaN target then False
                 else compareNumeric n target (operator rule)))
      else if field rule = ''vendor'' then
        (case vendor product of
           None \<Rightarrow> False
         | Some v \<Rightarrow>
             if v = [] then False
             else if operator rule \<noteq> ''eq'' then False
             else toLowerCase (trim v) = toLowerCase (trim (rule_value rule)))
      else False)"

text \<open>
  A \<^verbatim>\<open>Set<string>\<close> is the list of its members in insertion order, without repetition;
  \<^verbatim>\<open>Array.from\<close> of the set is that list.
\<close>

definition set_has :: "string list \<Rightarrow> string \<Rightarrow> bool" where
  "set_has s t = (t \<in> set s)"

definition set_add :: "string list \<Rightarrow> string \<Rightarrow> string list" where
  "set_add s t = (if t \<in> set s then s else s @ [t])"

definition new_Set :: "string list \<Rightarrow> string list" where
  "new_Set xs = foldl set_add [] xs"

fun evaluate_loop :: "ProductForEvaluation \<Rightarrow> ProductRule list \<Rightarrow> string list \<Rightarrow> string list" where
  "evaluate_loop product [] tags = tags"
| "evaluate_loop product (rule # rules) tags =
     (if \<not> enabled rule then evaluate_loop product rules tags
      else if evaluateSingleRule product rule
        then evaluate_loop product rules (set_add tags (tag rule))
      else evaluate_loop product rules tags)"

definition evaluateProductRules :: "ProductForEvaluation \<Rightarrow> ProductRule list \<Rightarrow> string list" where
  "evaluateProductRules product rules = evaluate_loop product rules []"

text \<open>The loop of \<^verbatim>\<open>mergeProductTags\<close> over the rule tags, on the pair (set, changed).\<close>

fun merge_loop :: "string list \<Rightarrow> string list \<times> bool \<Rightarrow> string list \<times> bool" where
  "merge_loop [] st = st"
| "merge_loop (t # ts) (s, changed) =
     (if \<not> set_has s t then merge_loop ts (set_add s t, True)
      else merge_loop ts (s, changed))"

text \<open>\<^const>\<open>None\<close> is the \<^verbatim>\<open>null\<close> that means no change.\<close>

definition mergeProductTags :: "string list \<Rightarrow> string list \<Rightarrow> string list option" where
  "mergeProductTags existingTags ruleTags =
     (case merge_loop ruleTags (new_Set existingTags, False) of
        (s, changed) \<Rightarrow> if changed then Some s else None)"

section \<open>The payload mapper and the applier (webhooks/products.server.ts)\<close>

text \<open>
  The REST payload. \<^verbatim>\<open>inventory_quantity\<close> is an integer count; sums of such counts
  are exact in double arithmetic below \<open>2 ^ 53\<close>, and are kept exact here.
\<close>

record Variant =
  variant_price :: "string option"
  inventory_quantity :: "int option"

record ProductWebhookPayload =
  payload_id :: nat
  payload_vendor :: "string option"
  variants :: "Variant list option"
  tags :: "string option"

record MappedProduct =
  shopifyProductId :: string
  productForEvaluation :: ProductForEvaluation
  existingTags :: "string list"

text \<open>
  The decimal digits of the product id, as the template literal prints an integer
  below \<open>10 ^ 21\<close>.
\<close>

fun decimal :: "nat \<Rightarrow> string" where
  "decimal n =
     (if n < 10 then [char_of (48 + n)]
      else decimal (n div 10) @ [char_of (48 + n mod 10)])"

declare decimal.simps [simp del]

definition firstVariant :: "ProductWebhookPayload \<Rightarrow> Variant option" where
  "firstVariant payload =
     (case variants payload of
        None \<Rightarrow> None
      | Some [] \<Rightarrow> None
      | Some (v # _) \<Rightarrow> Some v)"

text \<open>The price before the final NaN test: \<^verbatim>\<open>firstVariant?.price != null ? parseFloat(...) : null\<close>.\<close>

definition parsedPrice :: "ProductWebhookPayload \<Rightarrow> jsnum option" where
  "parsedPrice payload =
     (case firstVariant payload of
        None \<Rightarrow> None
      | Some v \<Rightarrow>
          (case variant_price v of
             None \<Rightarrow> None
           | Some str \<Rightarrow> Some (parseFloat str)))"

text \<open>\<^verbatim>\<open>payload.variants?.reduce((sum, variant) => sum + (variant.inventory_quantity ?? 0), 0) ?? null\<close>\<close>

definition sumInventory :: "Variant list \<Rightarrow> int" where
  "sumInventory vs =
     foldl (\<lambda>sum variant. sum + (case inventory_quantity variant of None \<Rightarrow> 0 | Some qty \<Rightarrow> qty)) 0 vs"

definition mappedInventory :: "ProductWebhookPayload \<Rightarrow> jsnum option" where
  "mappedInventory payload =
     (case variants payload of
        None \<Rightarrow> None
      | Some vs \<Rightarrow> Some (Fin (of_int (sumInventory vs))))"

definition parseTags :: "string option \<Rightarrow> string list" where
  "parseTags t =
     (case t of
        None \<Rightarrow> []
      | Some s \<Rightarrow> filter (\<lambda>tag. length tag > 0) (map trim (split_comma s)))"

definition mapWebhookPayloadToProduct :: "ProductWebhookPayload \<Rightarrow> MappedProduct" where
  "mapWebhookPayloadToProduct payload =
     \<lparr> shopifyProductId = ''gid://shopify/Product/'' @ decimal (payload_id payload),
       productForEvaluation =
         \<lparr> price =
             (if isNaN (case parsedPrice payload of None \<Rightarrow> NaN | Some x \<Rightarrow> x) then None
              else parsedPrice payload),
           totalInventory = mappedInventory payload,
           vendor = payload_vendor payload \<rparr>,
       existingTags = parseTags (tags payload) \<rparr>"

text \<open>
  The rule store: the shop table, looked up by domain, and the rule table.
  \<^verbatim>\<open>getRulesForShop\<close> selects the shop's rules and orders them by creation time
  (rules created at the same time keep their table order here; the store leaves that
  order open).
\<close>

record Store =
  shop :: "string \<Rightarrow> string option"
  productRule :: "ProductRule list"

definition getRulesForShop :: "Store \<Rightarrow> string \<Rightarrow> ProductRule list" where
  "getRulesForShop db sid = sort_key createdAt (filter (\<lambda>r. shopId r = sid) (productRule db))"

text \<open>
  The effects of the applier: the \<^verbatim>\<open>productUpdate\<close> calls sent through
  \<^verbatim>\<open>admin.graphql\<close>, each with the product id and the tag list of its input, and the
  console lines. The admin context answers a call with its \<^verbatim>\<open>userErrors\<close>.
  A rejected promise of the store or of the GraphQL call leaves the function as an
  exception before any later step; that path is not part of the model.
\<close>

record UserError =
  error_field :: "string list option"
  message :: string

datatype console_line = Warn string | Error "UserError list"

record Effects =
  productUpdates :: "(string \<times> string list) list"
  console :: "console_line list"

type_synonym AdminContext = "string \<Rightarrow> string list \<Rightarrow> UserError list"

definition applyProductRulesForShop ::
  "Store \<Rightarrow> string \<Rightarrow> AdminContext \<Rightarrow> ProductWebhookPayload \<Rightarrow> Effects \<Rightarrow> Effects" where
  "applyProductRulesForShop db shopDomain admin payload w =
     (case shop db shopDomain of
        None \<Rightarrow> w\<lparr>console := console w @ [Warn (''No Shop record found for domain '' @ shopDomain)]\<rparr>
      | Some sid \<Rightarrow>
          (let rules = getRulesForShop db sid
           in if length rules = 0 then w
              else
                (let m = mapWebhookPayloadToProduct payload;
                     ruleTags = evaluateProductRules (productForEvaluation m) rules
                 in if length ruleTags = 0 then w
                    else
                      (case mergeProductTags (existingTags m) ruleTags of
                         None \<Rightarrow> w
                       | Some mergedTags \<Rightarrow>
                           (let w' = w\<lparr>productUpdates :=
                                        productUpdates w @ [(shopifyProductId m, mergedTags)]\<rparr>;
                                userErrors = admin (shopifyProductId m) mergedTags
                            in if length userErrors > 0
                               then w'\<lparr>console := console w' @ [Error userErrors]\<rparr>
                               else w')))))"

section \<open>The tag merger\<close>

lemma set_foldl_set_add: "set (foldl set_add acc xs) = set acc \<union> set xs"
  by (induction xs arbitrary: acc) (auto simp: set_add_def)

lemma set_new_Set: "set (new_Set xs) = set xs"
  by (simp add: new_Set_def set_foldl_set_add)

lemma set_merge_loop: "set (fst (merge_loop ts (s, c))) = set s \<union> set ts"
  by (induction ts arbitrary: s c) (auto simp: set_add_def set_has_def)

lemma changed_merge_loop: "snd (merge_loop ts (s, c)) = (c \<or> \<not> set ts \<subseteq> set s)"
  by (induction ts arbitrary: s c) (auto simp: set_add_def set_has_def set_merge_loop)

lemma merge_None_iff: "mergeProductTags E R = None \<longleftrightarrow> set R \<subseteq> set E"
  using changed_merge_loop [of R "new_Set E" False]
  by (auto simp: mergeProductTags_def set_new_Set split: prod.splits)

lemma merge_Some_set: "mergeProductTags E R = Some T \<Longrightarrow> set T = set E \<union> set R"
  using set_merge_loop [of R "new_Set E" False]
  by (auto simp: mergeProductTags_def set_new_Set split: prod.splits if_splits)

text \<open>
  C1. Evaluate and merge, twice: when the first merge of the existing tags \<open>E\<close> with the
  tags the rules derive returns a new list \<open>T\<close>, merging \<open>T\<close> with the same derived tags
  returns no change. More generally the second merge, run on the tags the product has
  after the first one (\<open>T\<close>, or \<open>E\<close> itself when the first merge returned no change),
  returns no change.
\<close>

theorem evaluate_merge_idempotent:
  "(\<forall>T. mergeProductTags E (evaluateProductRules P RS) = Some T \<longrightarrow>
        mergeProductTags T (evaluateProductRules P RS) = None) \<and>
   mergeProductTags
     (case mergeProductTags E (evaluateProductRules P RS) of None \<Rightarrow> E | Some T \<Rightarrow> T)
     (evaluateProductRules P RS) = None"
  by (auto simp: merge_None_iff split: option.splits dest: merge_Some_set)

theorem evaluate_merge_idempotent_witness:
  "mergeProductTags [''sale'']
     (evaluateProductRules
        \<lparr>price = Some (Fin 120), totalInventory = None, vendor = None\<rparr>
        [\<lparr>rule_id = ''r1'', shopId = ''s1'', field = ''price'', operator = ''gt'',
          rule_value = ''100'', tag = ''expensive'', enabled = True, createdAt = 0\<rparr>])
     = Some [''sale'', ''expensive''] \<and>
   mergeProductTags [''sale'', ''expensive'']
     (evaluateProductRules
        \<lparr>price = Some (Fin 120), totalInventory = None, vendor = None\<rparr>
        [\<lparr>rule_id = ''r1'', shopId = ''s1'', field = ''price'', operator = ''gt'',
          rule_value = ''100'', tag = ''expensive'', enabled = True, createdAt = 0\<rparr>])
     = None"
proof -
  let ?P = "\<lparr>price = Some (Fin 120), totalInventory = None, vendor = None\<rparr>"
  let ?RS = "[\<lparr>rule_id = ''r1'', shopId = ''s1'', field = ''price'', operator = ''gt'',
          rule_value = ''100'', tag = ''expensive'', enabled = True, createdAt = 0\<rparr>]"
  have first: "mergeProductTags [''sale''] (evaluateProductRules ?P ?RS)
                 = Some [''sale'', ''expensive'']"
    by code_simp
  from evaluate_merge_idempotent [of "[''sale'']" ?P ?RS] first show ?thesis
    by simp
qed

text \<open>
  C2. The merge never drops a tag: a result that is not the no-change value holds
  every existing tag and every rule tag (and nothing else), and the result is the
  no-change value exactly when every rule tag is already among the existing tags.
\<close>

theorem merge_non_destructive:
  "(mergeProductTags E R = None \<longleftrightarrow> set R \<subseteq> set E) \<and>
   (\<forall>T. mergeProductTags E R = Some T \<longrightarrow>
        set E \<subseteq> set T \<and> set R \<subseteq> set T \<and> set T = set E \<union> set R)"
  using merge_None_iff merge_Some_set by blast

theorem merge_non_destructive_witness:
  "mergeProductTags [''sale'', ''new''] [''expensive'', ''sale'']
     = Some [''sale'', ''new'', ''expensive''] \<and>
   set [''sale'', ''new''] \<subseteq> set [''sale'', ''new'', ''expensive''] \<and>
   set [''expensive'', ''sale''] \<subseteq> set [''sale'', ''new'', ''expensive''] \<and>
   mergeProductTags [''sale'', ''expensive''] [''expensive''] = None \<and>
   set [''expensive''] \<subseteq> set [''sale'', ''expensive'']"
proof -
  have some: "mergeProductTags [''sale'', ''new''] [''expensive'', ''sale'']
                = Some [''sale'', ''new'', ''expensive'']"
    by code_simp
  have sub: "set [''expensive''] \<subseteq> set [''sale'', ''expensive'']"
    by simp
  from merge_non_destructive [of "[''sale'', ''new'']" "[''expensive'', ''sale'']"] some
       merge_non_destructive [of "[''sale'', ''expensive'']" "[''expensive'']"] sub
  show ?thesis by simp
qed

section \<open>The rule evaluator\<close>

lemma evaluate_loop_filter:
  "evaluate_loop p (filter enabled rs) acc = evaluate_loop p rs acc"
  by (induction rs arbitrary: acc) auto

lemma set_evaluate_loop:
  "set (evaluate_loop p rs acc) =
     set acc \<union> {tag r | r. r \<in> set rs \<and> enabled r \<and> evaluateSingleRule p r}"
  by (induction rs arbitrary: acc) (auto simp: set_add_def)

lemma distinct_evaluate_loop:
  "distinct acc \<Longrightarrow> distinct (evaluate_loop p rs acc)"
  by (induction rs arbitrary: acc) (auto simp: set_add_def)

lemma evaluate_loop_no_match:
  "\<forall>r\<in>set rs. \<not> (enabled r \<and> evaluateSingleRule p r) \<Longrightarrow> evaluate_loop p rs acc = acc"
  by (induction rs arbitrary: acc) auto

lemma parseFloat_abc: "parseFloat ''abc'' = NaN"
  by code_simp

lemma price_unparsable:
  "field r = ''price'' \<Longrightarrow> parseFloat (rule_value r) = NaN \<Longrightarrow> \<not> evaluateSingleRule p r"
  by (simp add: evaluateSingleRule_def isNaN_def split: option.splits)

lemma inventory_unparsable:
  "field r = ''inventory'' \<Longrightarrow> parseInt10 (rule_value r) = NaN \<Longrightarrow> \<not> evaluateSingleRule p r"
  by (simp add: evaluateSingleRule_def isNaN_def split: option.splits)

lemma price_unknown:
  "field r = ''price'' \<Longrightarrow> price p = None \<Longrightarrow> \<not> evaluateSingleRule p r"
  by (simp add: evaluateSingleRule_def)

lemma inventory_unknown:
  "field r = ''inventory'' \<Longrightarrow> totalInventory p = None \<Longrightarrow> \<not> evaluateSingleRule p r"
  by (simp add: evaluateSingleRule_def)

lemma vendor_unknown:
  "field r = ''vendor'' \<Longrightarrow> vendor p = None \<Longrightarrow> \<not> evaluateSingleRule p r"
  by (simp add: evaluateSingleRule_def)

lemma unknown_field:
  "field r \<noteq> ''price'' \<Longrightarrow> field r \<noteq> ''inventory'' \<Longrightarrow> field r \<noteq> ''vendor'' \<Longrightarrow>
   \<not> evaluateSingleRule p r"
  by (simp add: evaluateSingleRule_def)

lemma unknown_operator:
  "operator r \<noteq> ''gt'' \<Longrightarrow> operator r \<noteq> ''lt'' \<Longrightarrow> operator r \<noteq> ''eq'' \<Longrightarrow>
   \<not> evaluateSingleRule p r"
  by (simp add: evaluateSingleRule_def compareNumeric_def Let_def split: option.splits)

lemma unparsable_example:
  "evaluateProductRules \<lparr>price = Some (Fin 50), totalInventory = ti, vendor = v\<rparr>
      [\<lparr>rule_id = i, shopId = s, field = ''price'', operator = ''gt'', rule_value = ''abc'',
        tag = t, enabled = e, createdAt = c\<rparr>] = []"
  by (simp add: evaluateProductRules_def evaluateSingleRule_def parseFloat_abc isNaN_def)

lemma unknown_example:
  "evaluateProductRules \<lparr>price = None, totalInventory = ti, vendor = v\<rparr>
      [\<lparr>rule_id = i, shopId = s, field = ''price'', operator = ''gt'', rule_value = ''10'',
        tag = t, enabled = e, createdAt = c\<rparr>] = []"
  by (simp add: evaluateProductRules_def evaluateSingleRule_def)

text \<open>
  C7. Evaluation is a total function with no failing branch: it returns, for every
  record and rule list, the list (without repetition) of the tags of the enabled rules
  that match. A price rule whose value \<^verbatim>\<open>parseFloat\<close> turns into NaN, an inventory rule
  whose value \<^verbatim>\<open>parseInt\<close> turns into NaN, a rule on a field the record does not know,
  a rule with a field or an operator outside the supported ones: none of them matches.
  The two examples of the specification give the empty list.
\<close>

theorem evaluation_total_no_match:
  "(field r = ''price'' \<and> parseFloat (rule_value r) = NaN \<longrightarrow> \<not> evaluateSingleRule p r) \<and>
   (field r = ''inventory'' \<and> parseInt10 (rule_value r) = NaN \<longrightarrow> \<not> evaluateSingleRule p r) \<and>
   (field r = ''price'' \<and> price p = None \<longrightarrow> \<not> evaluateSingleRule p r) \<and>
   (field r = ''inventory'' \<and> totalInventory p = None \<longrightarrow> \<not> evaluateSingleRule p r) \<and>
   (field r = ''vendor'' \<and> vendor p = None \<longrightarrow> \<not> evaluateSingleRule p r) \<and>
   (field r \<noteq> ''price'' \<and> field r \<noteq> ''inventory'' \<and> field r \<noteq> ''vendor'' \<longrightarrow>
      \<not> evaluateSingleRule p r) \<and>
   (operator r \<noteq> ''gt'' \<and> operator r \<noteq> ''lt'' \<and> operator r \<noteq> ''eq'' \<longrightarrow>
      \<not> evaluateSingleRule p r) \<and>
   set (evaluateProductRules p rs) =
      {tag r | r. r \<in> set rs \<and> enabled r \<and> evaluateSingleRule p r} \<and>
   distinct (evaluateProductRules p rs) \<and>
   evaluateProductRules \<lparr>price = Some (Fin 50), totalInventory = ti, vendor = v\<rparr>
      [\<lparr>rule_id = i, shopId = s, field = ''price'', operator = ''gt'', rule_value = ''abc'',
        tag = t, enabled = e, createdAt = c\<rparr>] = [] \<and>
   evaluateProductRules \<lparr>price = None, totalInventory = ti, vendor = v\<rparr>
      [\<lparr>rule_id = i, shopId = s, field = ''price'', operator = ''gt'', rule_value = ''10'',
        tag = t, enabled = e, createdAt = c\<rparr>] = []"
proof -
  have "set (evaluateProductRules p rs) =
          {tag r | r. r \<in> set rs \<and> enabled r \<and> evaluateSingleRule p r}"
    by (simp add: evaluateProductRules_def set_evaluate_loop)
  moreover have "distinct (evaluateProductRules p rs)"
    by (simp add: evaluateProductRules_def distinct_evaluate_loop)
  ultimately show ?thesis
    using price_unparsable [of r p] inventory_unparsable [of r p] price_unknown [of r p]
      inventory_unknown [of r p] vendor_unknown [of r p] unknown_field [of r p]
      unknown_operator [of r p] unparsable_example [of ti v i s t e c]
      unknown_example [of ti v i s t e c]
    by blast
qed

theorem evaluation_total_no_match_witness:
  "parseFloat ''abc'' = NaN \<and>
   \<not> evaluateSingleRule \<lparr>price = Some (Fin 50), totalInventory = Some (Fin 3), vendor = None\<rparr>
      \<lparr>rule_id = ''r1'', shopId = ''s1'', field = ''price'', operator = ''gt'',
        rule_value = ''abc'', tag = ''expensive'', enabled = True, createdAt = 0\<rparr> \<and>
   parseInt10 ''few'' = NaN \<and>
   \<not> evaluateSingleRule \<lparr>price = Some (Fin 50), totalInventory = Some (Fin 3), vendor = None\<rparr>
      \<lparr>rule_id = ''r2'', shopId = ''s1'', field = ''inventory'', operator = ''lt'',
        rule_value = ''few'', tag = ''low-stock'', enabled = True, createdAt = 1\<rparr> \<and>
   \<not> evaluateSingleRule \<lparr>price = None, totalInventory = None, vendor = None\<rparr>
      \<lparr>rule_id = ''r3'', shopId = ''s1'', field = ''price'', operator = ''gt'',
        rule_value = ''10'', tag = ''expensive'', enabled = True, createdAt = 2\<rparr> \<and>
   \<not> evaluateSingleRule \<lparr>price = Some (Fin 50), totalInventory = Some (Fin 3), vendor = None\<rparr>
      \<lparr>rule_id = ''r4'', shopId = ''s1'', field = ''price'', operator = ''ge'',
        rule_value = ''10'', tag = ''expensive'', enabled = True, createdAt = 3\<rparr>"
proof -
  let ?p = "\<lparr>price = Some (Fin 50), totalInventory = Some (Fin 3), vendor = None\<rparr>"
  let ?q = "\<lparr>price = None, totalInventory = None, vendor = None\<rparr>"
  let ?r1 = "\<lparr>rule_id = ''r1'', shopId = ''s1'', field = ''price'', operator = ''gt'',
        rule_value = ''abc'', tag = ''expensive'', enabled = True, createdAt = 0\<rparr>"
  let ?r2 = "\<lparr>rule_id = ''r2'', shopId = ''s1'', field = ''inventory'', operator = ''lt'',
        rule_value = ''few'', tag = ''low-stock'', enabled = True, createdAt = 1\<rparr>"
  let ?r3 = "\<lparr>rule_id = ''r3'', shopId = ''s1'', field = ''price'', operator = ''gt'',
        rule_value = ''10'', tag = ''expensive'', enabled = True, createdAt = 2\<rparr>"
  let ?r4 = "\<lparr>rule_id = ''r4'', shopId = ''s1'', field = ''price'', operator = ''ge'',
        rule_value = ''10'', tag = ''expensive'', enabled = True, createdAt = 3\<rparr>"
  have a: "parseFloat ''abc'' = NaN" by code_simp
  have b: "parseInt10 ''few'' = NaN" by code_simp
  from evaluation_total_no_match [of ?r1 ?p] a
  have 1: "\<not> evaluateSingleRule ?p ?r1" by simp
  from evaluation_total_no_match [of ?r2 ?p] b
  have 2: "\<not> evaluateSingleRule ?p ?r2" by simp
  from evaluation_total_no_match [of ?r3 ?q]
  have 3: "\<not> evaluateSingleRule ?q ?r3" by simp
  from evaluation_total_no_match [of ?r4 ?p]
  have 4: "\<not> evaluateSingleRule ?p ?r4" by simp
  from a b 1 2 3 4 show ?thesis by blast
qed

lemma isWhiteSpace_toLowerChar: "isWhiteSpace (toLowerChar c) = isWhiteSpace c"
  by (auto simp: isWhiteSpace_def toLowerChar_def Let_def)

lemma toLowerCase_trim: "toLowerCase (trim s) = trim (toLowerCase s)"
proof -
  have c: "isWhiteSpace \<circ> toLowerChar = isWhiteSpace"
    by (rule ext) (simp add: isWhiteSpace_toLowerChar)
  show ?thesis
    by (simp add: toLowerCase_def trim_def rev_map dropWhile_map c)
qed

lemma trim_pad:
  assumes l: "\<forall>c\<in>set l. isWhiteSpace c" and r: "\<forall>c\<in>set r. isWhiteSpace c"
  shows "trim (l @ s @ r) = trim s"
proof -
  have a: "dropWhile isWhiteSpace (l @ s @ r) = dropWhile isWhiteSpace (s @ r)"
    using l by (intro dropWhile_append2) simp
  show ?thesis
  proof (cases "\<forall>c\<in>set s. isWhiteSpace c")
    case True
    then have e: "dropWhile isWhiteSpace (l @ s @ r) = []" "dropWhile isWhiteSpace s = []"
      using l r by auto
    show ?thesis by (simp only: trim_def e)
  next
    case False
    then obtain x where "x \<in> set s" "\<not> isWhiteSpace x" by blast
    then have "dropWhile isWhiteSpace (s @ r) = dropWhile isWhiteSpace s @ r"
      by (rule dropWhile_append1)
    moreover have "dropWhile isWhiteSpace (rev r @ rev (dropWhile isWhiteSpace s))
                   = dropWhile isWhiteSpace (rev (dropWhile isWhiteSpace s))"
      using r by (intro dropWhile_append2) simp
    ultimately show ?thesis using a by (simp add: trim_def)
  qed
qed

lemma vendor_match_iff:
  "field r = ''vendor'' \<Longrightarrow>
   evaluateSingleRule p r \<longleftrightarrow>
     (\<exists>v. vendor p = Some v \<and> v \<noteq> [] \<and> operator r = ''eq'' \<and>
          toLowerCase (trim v) = toLowerCase (trim (rule_value r)))"
  by (auto simp add: evaluateSingleRule_def split: option.splits)

lemma vendor_padding:
  assumes "field rule = ''vendor''" "v \<noteq> []"
    and "\<forall>c\<in>set (l @ r @ l' @ r'). isWhiteSpace c"
  shows "evaluateSingleRule (p\<lparr>vendor := Some (l @ v @ r)\<rparr>) (rule\<lparr>rule_value := l' @ x @ r'\<rparr>)
       = evaluateSingleRule (p\<lparr>vendor := Some v\<rparr>) (rule\<lparr>rule_value := x\<rparr>)"
proof -
  have "trim (l @ v @ r) = trim v" "trim (l' @ x @ r') = trim x"
    using assms(3) by (auto intro: trim_pad)
  then show ?thesis using assms(1,2) by (simp add: vendor_match_iff)
qed

lemma vendor_case:
  assumes "field rule = ''vendor''"
    and "toLowerCase v = toLowerCase v'" "toLowerCase x = toLowerCase x'"
  shows "evaluateSingleRule (p\<lparr>vendor := Some v\<rparr>) (rule\<lparr>rule_value := x\<rparr>)
       = evaluateSingleRule (p\<lparr>vendor := Some v'\<rparr>) (rule\<lparr>rule_value := x'\<rparr>)"
proof -
  have "v = [] \<longleftrightarrow> v' = []"
    using assms(2) by (metis toLowerCase_def map_is_Nil_conv)
  then show ?thesis using assms by (simp add: vendor_match_iff toLowerCase_trim)
qed

lemma vendor_example:
  "evaluateProductRules \<lparr>price = pr, totalInventory = ti, vendor = Some ''Acme ''\<rparr>
      [\<lparr>rule_id = i, shopId = s, field = ''vendor'', operator = ''eq'', rule_value = ''acme'',
        tag = t, enabled = True, createdAt = c\<rparr>] = [t]"
proof -
  have "toLowerCase (trim ''Acme '') = toLowerCase (trim ''acme'')" by code_simp
  then show ?thesis
    by (simp add: evaluateProductRules_def vendor_match_iff set_add_def)
qed

text \<open>
  C8. A vendor rule matches only when the record's vendor is known and the operator
  is \<^verbatim>\<open>eq\<close>; with \<^verbatim>\<open>gt\<close> or \<^verbatim>\<open>lt\<close> it never matches. For a known, non-empty vendor
  and \<^verbatim>\<open>eq\<close> it matches exactly when the two sides agree after trimming and lower-casing:
  white space added around the vendor or around the rule's value, and any change of
  letter case on either side, leave the outcome unchanged. The example of the
  specification, vendor \<^verbatim>\<open>"Acme "\<close> against value \<^verbatim>\<open>"acme"\<close>, matches.
\<close>

theorem vendor_predicate:
  "(field rule = ''vendor'' \<and> evaluateSingleRule p rule \<longrightarrow>
      (\<exists>v. vendor p = Some v \<and>
           toLowerCase (trim v) = toLowerCase (trim (rule_value rule))) \<and>
      operator rule = ''eq'') \<and>
   (field rule = ''vendor'' \<and> (operator rule = ''gt'' \<or> operator rule = ''lt'') \<longrightarrow>
      \<not> evaluateSingleRule p rule) \<and>
   (\<forall>v. field rule = ''vendor'' \<and> operator rule = ''eq'' \<and> vendor p = Some v \<and> v \<noteq> [] \<longrightarrow>
      (evaluateSingleRule p rule \<longleftrightarrow>
         toLowerCase (trim v) = toLowerCase (trim (rule_value rule)))) \<and>
   (\<forall>v l r x l' r'.
      field rule = ''vendor'' \<and> v \<noteq> [] \<and> (\<forall>c\<in>set (l @ r @ l' @ r'). isWhiteSpace c) \<longrightarrow>
      evaluateSingleRule (p\<lparr>vendor := Some (l @ v @ r)\<rparr>) (rule\<lparr>rule_value := l' @ x @ r'\<rparr>)
        = evaluateSingleRule (p\<lparr>vendor := Some v\<rparr>) (rule\<lparr>rule_value := x\<rparr>)) \<and>
   (\<forall>v v' x x'.
      field rule = ''vendor'' \<and> toLowerCase v = toLowerCase v' \<and> toLowerCase x = toLowerCase x' \<longrightarrow>
      evaluateSingleRule (p\<lparr>vendor := Some v\<rparr>) (rule\<lparr>rule_value := x\<rparr>)
        = evaluateSingleRule (p\<lparr>vendor := Some v'\<rparr>) (rule\<lparr>rule_value := x'\<rparr>)) \<and>
   evaluateProductRules \<lparr>price = pr, totalInventory = ti, vendor = Some ''Acme ''\<rparr>
      [\<lparr>rule_id = i, shopId = s, field = ''vendor'', operator = ''eq'', rule_value = ''acme'',
        tag = t, enabled = True, createdAt = c\<rparr>] = [t]"
proof (intro conjI allI impI)
  assume "field rule = ''vendor'' \<and> evaluateSingleRule p rule"
  then show "\<exists>v. vendor p = Some v \<and>
           toLowerCase (trim v) = toLowerCase (trim (rule_value rule))"
    by (auto simp: vendor_match_iff)
next
  assume "field rule = ''vendor'' \<and> evaluateSingleRule p rule"
  then show "operator rule = ''eq''"
    by (auto simp: vendor_match_iff)
next
  assume "field rule = ''vendor'' \<and> (operator rule = ''gt'' \<or> operator rule = ''lt'')"
  then show "\<not> evaluateSingleRule p rule"
    by (auto simp: vendor_match_iff)
next
  fix v
  assume "field rule = ''vendor'' \<and> operator rule = ''eq'' \<and> vendor p = Some v \<and> v \<noteq> []"
  then show "evaluateSingleRule p rule \<longleftrightarrow>
         toLowerCase (trim v) = toLowerCase (trim (rule_value rule))"
    by (simp add: vendor_match_iff)
next
  fix v x :: string and l r l' r' :: string
  assume "field rule = ''vendor'' \<and> v \<noteq> [] \<and> (\<forall>c\<in>set (l @ r @ l' @ r'). isWhiteSpace c)"
  then show "evaluateSingleRule (p\<lparr>vendor := Some (l @ v @ r)\<rparr>) (rule\<lparr>rule_value := l' @ x @ r'\<rparr>)
        = evaluateSingleRule (p\<lparr>vendor := Some v\<rparr>) (rule\<lparr>rule_value := x\<rparr>)"
    using vendor_padding [of rule v l r l' r' p x] by blast
next
  fix v v' x x'
  assume "field rule = ''vendor'' \<and> toLowerCase v = toLowerCase v' \<and> toLowerCase x = toLowerCase x'"
  then show "evaluateSingleRule (p\<lparr>vendor := Some v\<rparr>) (rule\<lparr>rule_value := x\<rparr>)
        = evaluateSingleRule (p\<lparr>vendor := Some v'\<rparr>) (rule\<lparr>rule_value := x'\<rparr>)"
    using vendor_case [of rule v v' x x' p] by blast
next
  show "evaluateProductRules \<lparr>price = pr, totalInventory = ti, vendor = Some ''Acme ''\<rparr>
      [\<lparr>rule_id = i, shopId = s, field = ''vendor'', operator = ''eq'', rule_value = ''acme'',
        tag = t, enabled = True, createdAt = c\<rparr>] = [t]"
    by (rule vendor_example)
qed

theorem vendor_predicate_witness:
  "evaluateSingleRule
      \<lparr>price = None, totalInventory = None, vendor = Some ''  ACME Corp ''\<rparr>
      \<lparr>rule_id = ''r1'', shopId = ''s1'', field = ''vendor'', operator = ''eq'',
        rule_value = '' acme corp'', tag = ''acme'', enabled = True, createdAt = 0\<rparr> \<and>
   \<not> evaluateSingleRule
      \<lparr>price = None, totalInventory = None, vendor = Some ''  ACME Corp ''\<rparr>
      \<lparr>rule_id = ''r2'', shopId = ''s1'', field = ''vendor'', operator = ''gt'',
        rule_value = '' acme corp'', tag = ''acme'', enabled = True, createdAt = 1\<rparr>"
proof -
  let ?p = "\<lparr>price = None, totalInventory = None, vendor = Some ''  ACME Corp ''\<rparr>"
  let ?r1 = "\<lparr>rule_id = ''r1'', shopId = ''s1'', field = ''vendor'', operator = ''eq'',
        rule_value = '' acme corp'', tag = ''acme'', enabled = True, createdAt = 0\<rparr>"
  let ?r2 = "\<lparr>rule_id = ''r2'', shopId = ''s1'', field = ''vendor'', operator = ''gt'',
        rule_value = '' acme corp'', tag = ''acme'', enabled = True, createdAt = 1\<rparr>"
  have same: "toLowerCase (trim ''  ACME Corp '') = toLowerCase (trim '' acme corp'')"
    by code_simp
  have "field ?r1 = ''vendor'' \<and> operator ?r1 = ''eq'' \<and>
        vendor ?p = Some ''  ACME Corp '' \<and> ''  ACME Corp '' \<noteq> []"
    by simp
  with vendor_predicate [of ?r1 ?p, THEN conjunct2, THEN conjunct2, THEN conjunct1,
      rule_format, of "''  ACME Corp ''"] same
  have 1: "evaluateSingleRule ?p ?r1" by simp
  have "field ?r2 = ''vendor'' \<and> (operator ?r2 = ''gt'' \<or> operator ?r2 = ''lt'')"
    by simp
  with vendor_predicate [of ?r2 ?p, THEN conjunct2, THEN conjunct1]
  have 2: "\<not> evaluateSingleRule ?p ?r2" by blast
  from 1 2 show ?thesis by blast
qed

text \<open>
  C9. Disabled rules contribute nothing: evaluating a rule list gives the same result
  as evaluating the list of its enabled rules, and a list with only disabled rules
  gives the empty list.
\<close>

theorem disabled_rules_contribute_nothing:
  "evaluateProductRules p rs = evaluateProductRules p (filter enabled rs) \<and>
   ((\<forall>r\<in>set rs. \<not> enabled r) \<longrightarrow> evaluateProductRules p rs = [])"
  by (simp add: evaluateProductRules_def evaluate_loop_filter evaluate_loop_no_match)

theorem disabled_rules_contribute_nothing_witness:
  "evaluateProductRules
      \<lparr>price = Some (Fin 120), totalInventory = Some (Fin 3), vendor = None\<rparr>
      [\<lparr>rule_id = ''r1'', shopId = ''s1'', field = ''price'', operator = ''gt'',
         rule_value = ''100'', tag = ''expensive'', enabled = False, createdAt = 0\<rparr>,
       \<lparr>rule_id = ''r2'', shopId = ''s1'', field = ''inventory'', operator = ''lt'',
         rule_value = ''5'', tag = ''low-stock'', enabled = True, createdAt = 1\<rparr>]
     = [''low-stock''] \<and>
   evaluateProductRules
      \<lparr>price = Some (Fin 120), totalInventory = Some (Fin 3), vendor = None\<rparr>
      [\<lparr>rule_id = ''r1'', shopId = ''s1'', field = ''price'', operator = ''gt'',
         rule_value = ''100'', tag = ''expensive'', enabled = False, createdAt = 0\<rparr>]
     = []"
proof -
  let ?p = "\<lparr>price = Some (Fin 120), totalInventory = Some (Fin 3), vendor = None\<rparr>"
  let ?r1 = "\<lparr>rule_id = ''r1'', shopId = ''s1'', field = ''price'', operator = ''gt'',
         rule_value = ''100'', tag = ''expensive'', enabled = False, createdAt = 0\<rparr>"
  let ?r2 = "\<lparr>rule_id = ''r2'', shopId = ''s1'', field = ''inventory'', operator = ''lt'',
         rule_value = ''5'', tag = ''low-stock'', enabled = True, createdAt = 1\<rparr>"
  have f: "filter enabled [?r1, ?r2] = [?r2]" by simp
  have e: "evaluateProductRules ?p [?r2] = [''low-stock'']" by code_simp
  from disabled_rules_contribute_nothing [of ?p "[?r1, ?r2]"] f e
  have 1: "evaluateProductRules ?p [?r1, ?r2] = [''low-stock'']" by simp
  have "\<forall>r\<in>set [?r1]. \<not> enabled r" by simp
  with disabled_rules_contribute_nothing [of ?p "[?r1]"]
  have 2: "evaluateProductRules ?p [?r1] = []" by blast
  from 1 2 show ?thesis by blast
qed

text \<open>
  C10. An empty vendor string counts as unknown: against a record whose vendor is
  the empty string no vendor rule matches, whatever its operator and value (a value
  that trims to the empty string included), and a list of vendor rules gives the empty
  list.
\<close>

theorem empty_vendor_never_matches:
  "(field r = ''vendor'' \<and> vendor p = Some [] \<longrightarrow> \<not> evaluateSingleRule p r) \<and>
   (vendor p = Some [] \<and> (\<forall>r\<in>set rs. field r = ''vendor'') \<longrightarrow>
      evaluateProductRules p rs = [])"
proof -
  have one: "\<not> evaluateSingleRule p r" if "field r = ''vendor''" "vendor p = Some []" for r
    using that by (simp add: vendor_match_iff)
  then have "evaluateProductRules p rs = []"
    if "vendor p = Some []" "\<forall>r\<in>set rs. field r = ''vendor''"
    using that by (simp add: evaluateProductRules_def evaluate_loop_no_match)
  with one show ?thesis by blast
qed

theorem empty_vendor_never_matches_witness:
  "trim ''  '' = [] \<and>
   \<not> evaluateSingleRule
      \<lparr>price = None, totalInventory = None, vendor = Some []\<rparr>
      \<lparr>rule_id = ''r1'', shopId = ''s1'', field = ''vendor'', operator = ''eq'',
        rule_value = ''  '', tag = ''no-vendor'', enabled = True, createdAt = 0\<rparr> \<and>
   evaluateProductRules
      \<lparr>price = None, totalInventory = None, vendor = Some []\<rparr>
      [\<lparr>rule_id = ''r1'', shopId = ''s1'', field = ''vendor'', operator = ''eq'',
        rule_value = ''  '', tag = ''no-vendor'', enabled = True, createdAt = 0\<rparr>] = []"
proof -
  let ?p = "\<lparr>price = None, totalInventory = None, vendor = Some []\<rparr>"
  let ?r = "\<lparr>rule_id = ''r1'', shopId = ''s1'', field = ''vendor'', operator = ''eq'',
        rule_value = ''  '', tag = ''no-vendor'', enabled = True, createdAt = 0\<rparr>"
  have t: "trim ''  '' = []" by code_simp
  have h: "field ?r = ''vendor'' \<and> vendor ?p = Some []" by simp
  with empty_vendor_never_matches [of ?r ?p "[?r]"]
  have 1: "\<not> evaluateSingleRule ?p ?r" by blast
  have "vendor ?p = Some [] \<and> (\<forall>r\<in>set [?r]. field r = ''vendor'')" by simp
  with empty_vendor_never_matches [of ?r ?p "[?r]"]
  have 2: "evaluateProductRules ?p [?r] = []" by blast
  from t 1 2 show ?thesis by blast
qed

section \<open>The payload mapper\<close>

lemma foldl_add_sum_list:
  "foldl (\<lambda>sum x. sum + f x) a xs = (a::int) + sum_list (map f xs)"
  by (induction xs arbitrary: a) simp_all

lemma sumInventory_sum_list:
  "sumInventory vs = (\<Sum>v\<leftarrow>vs. case inventory_quantity v of None \<Rightarrow> 0 | Some qty \<Rightarrow> qty)"
  by (simp add: sumInventory_def foldl_add_sum_list)

text \<open>
  C4, as the code has it. The mapped total inventory is unknown exactly when the payload
  has no \<^verbatim>\<open>variants\<close> field. When the field is there, the total is the sum of the
  variants' counts, a missing count adding zero; for an empty list of variants that sum
  is 0, not unknown.
\<close>

theorem inventory_mapping:
  "(variants pl = None \<longrightarrow>
      totalInventory (productForEvaluation (mapWebhookPayloadToProduct pl)) = None) \<and>
   (\<forall>vs. variants pl = Some vs \<longrightarrow>
      totalInventory (productForEvaluation (mapWebhookPayloadToProduct pl)) =
        Some (Fin (of_int (\<Sum>v\<leftarrow>vs. case inventory_quantity v of None \<Rightarrow> 0 | Some qty \<Rightarrow> qty)))) \<and>
   (variants pl = Some [] \<longrightarrow>
      totalInventory (productForEvaluation (mapWebhookPayloadToProduct pl)) = Some (Fin 0))"
  by (simp add: mapWebhookPayloadToProduct_def mappedInventory_def sumInventory_sum_list)

theorem inventory_mapping_witness:
  "totalInventory (productForEvaluation (mapWebhookPayloadToProduct
      \<lparr>payload_id = 7, payload_vendor = None,
        variants = Some [\<lparr>variant_price = Some ''10.00'', inventory_quantity = Some 2\<rparr>,
                         \<lparr>variant_price = None, inventory_quantity = None\<rparr>,
                         \<lparr>variant_price = Some ''12.00'', inventory_quantity = Some 1\<rparr>],
        tags = None\<rparr>)) = Some (Fin 3) \<and>
   totalInventory (productForEvaluation (mapWebhookPayloadToProduct
      \<lparr>payload_id = 7, payload_vendor = None, variants = None, tags = None\<rparr>)) = None"
proof -
  let ?vs = "[\<lparr>variant_price = Some ''10.00'', inventory_quantity = Some 2\<rparr>,
              \<lparr>variant_price = None, inventory_quantity = None\<rparr>,
              \<lparr>variant_price = Some ''12.00'', inventory_quantity = Some 1\<rparr>]"
  let ?pl = "\<lparr>payload_id = 7, payload_vendor = None, variants = Some ?vs, tags = None\<rparr>"
  let ?absent = "\<lparr>payload_id = 7, payload_vendor = None, variants = None, tags = None\<rparr>"
  have "variants ?pl = Some ?vs" by simp
  with inventory_mapping [of ?pl, THEN conjunct2, THEN conjunct1, rule_format, of ?vs]
  have 1: "totalInventory (productForEvaluation (mapWebhookPayloadToProduct ?pl)) = Some (Fin 3)"
    by simp
  have "variants ?absent = None" by simp
  with inventory_mapping [of ?absent, THEN conjunct1]
  have 2: "totalInventory (productForEvaluation (mapWebhookPayloadToProduct ?absent)) = None"
    by blast
  from 1 2 show ?thesis by blast
qed

text \<open>
  C4 as written fails for a payload whose list of variants is empty: the total is 0,
  and an inventory rule with \<^verbatim>\<open>lt\<close> matches the product.
\<close>

theorem inventory_empty_variants_counterexample:
  "variants \<lparr>payload_id = 7, payload_vendor = None, variants = Some [], tags = None\<rparr> = Some [] \<and>
   totalInventory (productForEvaluation (mapWebhookPayloadToProduct
      \<lparr>payload_id = 7, payload_vendor = None, variants = Some [], tags = None\<rparr>)) = Some (Fin 0) \<and>
   totalInventory (productForEvaluation (mapWebhookPayloadToProduct
      \<lparr>payload_id = 7, payload_vendor = None, variants = Some [], tags = None\<rparr>)) \<noteq> None \<and>
   evaluateProductRules (productForEvaluation (mapWebhookPayloadToProduct
      \<lparr>payload_id = 7, payload_vendor = None, variants = Some [], tags = None\<rparr>))
      [\<lparr>rule_id = ''r1'', shopId = ''s1'', field = ''inventory'', operator = ''lt'',
        rule_value = ''5'', tag = ''low-stock'', enabled = True, createdAt = 0\<rparr>]
     = [''low-stock'']"
  by code_simp

lemma mapped_price:
  "price (productForEvaluation (mapWebhookPayloadToProduct pl)) =
     (case variants pl of
        None \<Rightarrow> None
      | Some [] \<Rightarrow> None
      | Some (v # rest) \<Rightarrow>
          (case variant_price v of
             None \<Rightarrow> None
           | Some str \<Rightarrow> if parseFloat str = NaN then None else Some (parseFloat str)))"
  by (simp add: mapWebhookPayloadToProduct_def parsedPrice_def firstVariant_def isNaN_def
      split: option.splits list.splits)

text \<open>
  C5. The mapped price comes from the first variant only: it is unknown when there is
  no first variant (no \<^verbatim>\<open>variants\<close> field, or an empty list), when the first variant
  has no price string, and when \<^verbatim>\<open>parseFloat\<close> of that string is NaN; otherwise it is
  the parsed number, whatever the later variants hold. It is never NaN, and a price
  rule does not match a product whose mapped price is unknown.
\<close>

theorem price_mapping:
  "price (productForEvaluation (mapWebhookPayloadToProduct pl)) =
     (case variants pl of
        None \<Rightarrow> None
      | Some [] \<Rightarrow> None
      | Some (v # rest) \<Rightarrow>
          (case variant_price v of
             None \<Rightarrow> None
           | Some str \<Rightarrow> if parseFloat str = NaN then None else Some (parseFloat str))) \<and>
   (\<forall>v rest rest'.
      price (productForEvaluation (mapWebhookPayloadToProduct (pl\<lparr>variants := Some (v # rest)\<rparr>)))
      = price (productForEvaluation (mapWebhookPayloadToProduct (pl\<lparr>variants := Some (v # rest')\<rparr>)))) \<and>
   (variants pl = None \<or> variants pl = Some [] \<or>
    (\<exists>v rest. variants pl = Some (v # rest) \<and>
       (variant_price v = None \<or> (\<exists>str. variant_price v = Some str \<and> parseFloat str = NaN)))
    \<longrightarrow> price (productForEvaluation (mapWebhookPayloadToProduct pl)) = None) \<and>
   price (productForEvaluation (mapWebhookPayloadToProduct pl)) \<noteq> Some NaN \<and>
   (\<forall>r. price (productForEvaluation (mapWebhookPayloadToProduct pl)) = None \<and> field r = ''price''
      \<longrightarrow> \<not> evaluateSingleRule (productForEvaluation (mapWebhookPayloadToProduct pl)) r)"
proof (intro conjI allI)
  show "price (productForEvaluation (mapWebhookPayloadToProduct pl)) =
     (case variants pl of
        None \<Rightarrow> None
      | Some [] \<Rightarrow> None
      | Some (v # rest) \<Rightarrow>
          (case variant_price v of
             None \<Rightarrow> None
           | Some str \<Rightarrow> if parseFloat str = NaN then None else Some (parseFloat str)))"
    by (rule mapped_price)
next
  fix v rest rest'
  show "price (productForEvaluation (mapWebhookPayloadToProduct (pl\<lparr>variants := Some (v # rest)\<rparr>)))
      = price (productForEvaluation (mapWebhookPayloadToProduct (pl\<lparr>variants := Some (v # rest')\<rparr>)))"
    by (simp add: mapped_price)
next
  show "variants pl = None \<or> variants pl = Some [] \<or>
    (\<exists>v rest. variants pl = Some (v # rest) \<and>
       (variant_price v = None \<or> (\<exists>str. variant_price v = Some str \<and> parseFloat str = NaN)))
    \<longrightarrow> price (productForEvaluation (mapWebhookPayloadToProduct pl)) = None"
    by (auto simp: mapped_price)
next
  show "price (productForEvaluation (mapWebhookPayloadToProduct pl)) \<noteq> Some NaN"
    by (simp add: mapped_price split: option.splits list.splits)
next
  fix r
  show "price (productForEvaluation (mapWebhookPayloadToProduct pl)) = None \<and> field r = ''price''
      \<longrightarrow> \<not> evaluateSingleRule (productForEvaluation (mapWebhookPayloadToProduct pl)) r"
    using price_unknown by blast
qed

theorem price_mapping_witness:
  "price (productForEvaluation (mapWebhookPayloadToProduct
      \<lparr>payload_id = 7, payload_vendor = None,
        variants = Some [\<lparr>variant_price = Some ''n/a'', inventory_quantity = Some 2\<rparr>,
                         \<lparr>variant_price = Some ''10.00'', inventory_quantity = None\<rparr>],
        tags = None\<rparr>)) = None \<and>
   \<not> evaluateSingleRule (productForEvaluation (mapWebhookPayloadToProduct
      \<lparr>payload_id = 7, payload_vendor = None,
        variants = Some [\<lparr>variant_price = Some ''n/a'', inventory_quantity = Some 2\<rparr>,
                         \<lparr>variant_price = Some ''10.00'', inventory_quantity = None\<rparr>],
        tags = None\<rparr>))
      \<lparr>rule_id = ''r1'', shopId = ''s1'', field = ''price'', operator = ''lt'',
        rule_value = ''100'', tag = ''cheap'', enabled = True, createdAt = 0\<rparr> \<and>
   price (productForEvaluation (mapWebhookPayloadToProduct
      \<lparr>payload_id = 7, payload_vendor = None,
        variants = Some [\<lparr>variant_price = Some ''12.50'', inventory_quantity = Some 2\<rparr>,
                         \<lparr>variant_price = Some ''10.00'', inventory_quantity = None\<rparr>],
        tags = None\<rparr>)) = Some (Fin (25 / 2))"
proof -
  let ?v1 = "\<lparr>variant_price = Some ''n/a'', inventory_quantity = Some 2\<rparr>"
  let ?v2 = "\<lparr>variant_price = Some ''10.00'', inventory_quantity = None\<rparr>"
  let ?v3 = "\<lparr>variant_price = Some ''12.50'', inventory_quantity = Some 2\<rparr>"
  let ?bad = "\<lparr>payload_id = 7, payload_vendor = None, variants = Some [?v1, ?v2], tags = None\<rparr>"
  let ?good = "\<lparr>payload_id = 7, payload_vendor = None, variants = Some [?v3, ?v2], tags = None\<rparr>"
  let ?r = "\<lparr>rule_id = ''r1'', shopId = ''s1'', field = ''price'', operator = ''lt'',
        rule_value = ''100'', tag = ''cheap'', enabled = True, createdAt = 0\<rparr>"
  have nan: "parseFloat ''n/a'' = NaN" by code_simp
  have num: "parseFloat ''12.50'' = Fin (25 / 2)" by code_simp
  have "\<exists>v rest. variants ?bad = Some (v # rest) \<and>
          (variant_price v = None \<or> (\<exists>str. variant_price v = Some str \<and> parseFloat str = NaN))"
    using nan by simp
  with price_mapping [of ?bad, THEN conjunct2, THEN conjunct2, THEN conjunct1]
  have 1: "price (productForEvaluation (mapWebhookPayloadToProduct ?bad)) = None"
    by blast
  have "field ?r = ''price''" by simp
  with 1 price_mapping [of ?bad, THEN conjunct2, THEN conjunct2, THEN conjunct2, THEN conjunct2,
      rule_format, of ?r]
  have 2: "\<not> evaluateSingleRule (productForEvaluation (mapWebhookPayloadToProduct ?bad)) ?r"
    by blast
  from price_mapping [of ?good, THEN conjunct1] num
  have 3: "price (productForEvaluation (mapWebhookPayloadToProduct ?good)) = Some (Fin (25 / 2))"
    by simp
  from 1 2 3 show ?thesis by blast
qed

lemma split_comma_not_Nil: "split_comma s \<noteq> []"
  by (induction s) (auto split: list.splits)

lemma join_comma_Cons_Cons: "join_comma ((c # w) # ws) = c # join_comma (w # ws)"
  by (cases ws) simp_all

lemma join_split_comma: "join_comma (split_comma s) = s"
proof (induction s)
  case Nil
  show ?case by simp
next
  case (Cons c cs)
  obtain w ws where sp: "split_comma cs = w # ws"
    using split_comma_not_Nil [of cs] by (cases "split_comma cs") auto
  with Cons show ?case
    by (simp add: join_comma_Cons_Cons)
qed

lemma split_comma_no_comma: "w \<in> set (split_comma s) \<Longrightarrow> CHR '','' \<notin> set w"
  by (induction s arbitrary: w) (auto split: if_splits list.splits)

lemma set_trim: "set (trim s) \<subseteq> set s"
proof -
  have "set (dropWhile isWhiteSpace (rev (dropWhile isWhiteSpace s)))
          \<subseteq> set (rev (dropWhile isWhiteSpace s))"
    by (auto dest: set_dropWhileD)
  also have "\<dots> \<subseteq> set s"
    by (auto dest: set_dropWhileD)
  finally show ?thesis by (simp add: trim_def)
qed

lemma last_dropWhile_nonempty: "dropWhile P xs \<noteq> [] \<Longrightarrow> last (dropWhile P xs) = last xs"
  by (induction xs) (auto split: if_splits)

lemma trim_ends:
  assumes "trim s \<noteq> []"
  shows "\<not> isWhiteSpace (hd (trim s)) \<and> \<not> isWhiteSpace (last (trim s))"
proof -
  define t where "t = dropWhile isWhiteSpace s"
  define u where "u = dropWhile isWhiteSpace (rev t)"
  have ts: "trim s = rev u" by (simp add: trim_def t_def u_def)
  with assms have u: "u \<noteq> []" by simp
  then have t: "t \<noteq> []" by (auto simp: u_def)
  have "\<not> isWhiteSpace (hd u)" using u unfolding u_def by (rule hd_dropWhile)
  then have l: "\<not> isWhiteSpace (last (trim s))" using u by (simp add: ts last_rev)
  have "last u = last (rev t)" using u unfolding u_def by (rule last_dropWhile_nonempty)
  then have "hd (rev u) = hd t" using u t by (simp add: hd_rev last_rev)
  moreover have "\<not> isWhiteSpace (hd t)" using t unfolding t_def by (rule hd_dropWhile)
  ultimately show ?thesis using l by (simp add: ts)
qed

lemma parseTags_elements:
  assumes "t \<in> set (parseTags ts)"
  shows "t \<noteq> [] \<and> \<not> isWhiteSpace (hd t) \<and> \<not> isWhiteSpace (last t) \<and> CHR '','' \<notin> set t"
proof -
  from assms obtain s w where s: "ts = Some s" and w: "w \<in> set (split_comma s)"
    and t: "t = trim w" "t \<noteq> []"
    by (auto simp: parseTags_def split: option.splits)
  have "CHR '','' \<notin> set t"
    using split_comma_no_comma [OF w] set_trim [of w] t by auto
  with trim_ends [of w] t show ?thesis by simp
qed

text \<open>
  C6, as the code has it. The existing tags are the pieces of the tags string between
  commas, each trimmed, the empty ones dropped, in the order of the string; a missing
  tags string gives the empty list. Every tag in the list is non-empty, has no white
  space at either end and holds no comma. The mapper removes no duplicates: a tag
  written twice in the string is twice in the list.
\<close>

theorem existing_tags_parsing:
  "(tags pl = None \<longrightarrow> existingTags (mapWebhookPayloadToProduct pl) = []) \<and>
   (\<forall>s. tags pl = Some s \<longrightarrow>
      existingTags (mapWebhookPayloadToProduct pl) =
        filter (\<lambda>t. t \<noteq> []) (map trim (split_comma s)) \<and>
      join_comma (split_comma s) = s \<and>
      (\<forall>w\<in>set (split_comma s). CHR '','' \<notin> set w)) \<and>
   (\<forall>t\<in>set (existingTags (mapWebhookPayloadToProduct pl)).
      t \<noteq> [] \<and> \<not> isWhiteSpace (hd t) \<and> \<not> isWhiteSpace (last t) \<and> CHR '','' \<notin> set t)"
  using parseTags_elements [of _ "tags pl"] join_split_comma split_comma_no_comma
  by (auto simp: mapWebhookPayloadToProduct_def parseTags_def)

theorem existing_tags_parsing_witness:
  "existingTags (mapWebhookPayloadToProduct
      \<lparr>payload_id = 7, payload_vendor = None, variants = None,
        tags = Some ''sale,  new arrival ,, sale''\<rparr>) = [''sale'', ''new arrival'', ''sale''] \<and>
   existingTags (mapWebhookPayloadToProduct
      \<lparr>payload_id = 7, payload_vendor = None, variants = None, tags = None\<rparr>) = []"
proof -
  let ?some = "\<lparr>payload_id = 7, payload_vendor = None, variants = None,
        tags = Some ''sale,  new arrival ,, sale''\<rparr>"
  let ?none = "\<lparr>payload_id = 7, payload_vendor = None, variants = None, tags = None\<rparr>"
  have pieces: "filter (\<lambda>t. t \<noteq> []) (map trim (split_comma ''sale,  new arrival ,, sale''))
                  = [''sale'', ''new arrival'', ''sale'']"
    by code_simp
  have "tags ?some = Some ''sale,  new arrival ,, sale''" by simp
  with existing_tags_parsing [of ?some, THEN conjunct2, THEN conjunct1, rule_format,
      of "''sale,  new arrival ,, sale''"] pieces
  have 1: "existingTags (mapWebhookPayloadToProduct ?some) = [''sale'', ''new arrival'', ''sale'']"
    by simp
  have "tags ?none = None" by simp
  with existing_tags_parsing [of ?none, THEN conjunct1]
  have 2: "existingTags (mapWebhookPayloadToProduct ?none) = []"
    by blast
  from 1 2 show ?thesis by blast
qed

text \<open>
  C6 as written fails on a tags string that names a tag twice: the list the mapper
  returns has it twice.
\<close>

theorem existing_tags_duplicates_counterexample:
  "existingTags (mapWebhookPayloadToProduct
      \<lparr>payload_id = 7, payload_vendor = None, variants = None, tags = Some ''sale, new, sale''\<rparr>)
     = [''sale'', ''new'', ''sale''] \<and>
   \<not> distinct (existingTags (mapWebhookPayloadToProduct
      \<lparr>payload_id = 7, payload_vendor = None, variants = None, tags = Some ''sale, new, sale''\<rparr>))"
  by code_simp

section \<open>The applier\<close>

lemma evaluateProductRules_Nil: "evaluateProductRules p [] = []"
  by (simp add: evaluateProductRules_def)

lemma merge_Nil_None: "mergeProductTags E [] = None"
  by (simp add: merge_None_iff)

lemma apply_no_shop:
  "shop db shopDomain = None \<Longrightarrow>
   productUpdates (applyProductRulesForShop db shopDomain admin payload w) = productUpdates w"
  by (simp add: applyProductRulesForShop_def)

lemma apply_unchanged:
  assumes "shop db shopDomain = Some sid"
    and "getRulesForShop db sid = [] \<or>
         evaluateProductRules (productForEvaluation (mapWebhookPayloadToProduct payload))
           (getRulesForShop db sid) = [] \<or>
         mergeProductTags (existingTags (mapWebhookPayloadToProduct payload))
           (evaluateProductRules (productForEvaluation (mapWebhookPayloadToProduct payload))
              (getRulesForShop db sid)) = None"
  shows "applyProductRulesForShop db shopDomain admin payload w = w"
  using assms
  by (auto simp: applyProductRulesForShop_def Let_def evaluateProductRules_Nil merge_Nil_None)

lemma apply_one_update:
  assumes "shop db shopDomain = Some sid"
    and "mergeProductTags (existingTags (mapWebhookPayloadToProduct payload))
           (evaluateProductRules (productForEvaluation (mapWebhookPayloadToProduct payload))
              (getRulesForShop db sid)) = Some T"
  shows "productUpdates (applyProductRulesForShop db shopDomain admin payload w) =
           productUpdates w @ [(shopifyProductId (mapWebhookPayloadToProduct payload), T)]"
proof -
  let ?m = "mapWebhookPayloadToProduct payload"
  let ?rules = "getRulesForShop db sid"
  let ?ruleTags = "evaluateProductRules (productForEvaluation ?m) ?rules"
  have tags: "?ruleTags \<noteq> []"
    using assms(2) merge_Nil_None [of "existingTags ?m"] by auto
  then have rules: "?rules \<noteq> []"
    using evaluateProductRules_Nil [of "productForEvaluation ?m"] by auto
  show ?thesis
    using assms tags rules
    by (simp add: applyProductRulesForShop_def Let_def)
qed

text \<open>
  C3. One invocation of the applier sends at most one \<^verbatim>\<open>productUpdate\<close>, after the
  ones sent before. It sends none, and leaves the effects as they were for every
  payload, when the shop's stored rule list is empty, when the evaluator returns no
  tag, and when the merger returns no change; it sends none either when no shop record
  is found for the domain. In the remaining cases it sends exactly one, whose input
  holds the canonical product id (the namespace prefix and the decimal id) and the whole
  merged tag list.
\<close>

theorem applier_mutation_discipline:
  "length (productUpdates (applyProductRulesForShop db shopDomain admin payload w))
      \<le> length (productUpdates w) + 1 \<and>
   take (length (productUpdates w))
      (productUpdates (applyProductRulesForShop db shopDomain admin payload w))
      = productUpdates w \<and>
   (shop db shopDomain = None \<longrightarrow>
      productUpdates (applyProductRulesForShop db shopDomain admin payload w)
        = productUpdates w) \<and>
   (\<forall>sid rules m ruleTags.
      shop db shopDomain = Some sid \<and> rules = getRulesForShop db sid \<and>
      m = mapWebhookPayloadToProduct payload \<and>
      ruleTags = evaluateProductRules (productForEvaluation m) rules \<longrightarrow>
        (rules = [] \<longrightarrow> applyProductRulesForShop db shopDomain admin payload w = w) \<and>
        (ruleTags = [] \<longrightarrow> applyProductRulesForShop db shopDomain admin payload w = w) \<and>
        (mergeProductTags (existingTags m) ruleTags = None \<longrightarrow>
           applyProductRulesForShop db shopDomain admin payload w = w) \<and>
        (\<forall>T. rules \<noteq> [] \<and> ruleTags \<noteq> [] \<and>
              mergeProductTags (existingTags m) ruleTags = Some T \<longrightarrow>
           productUpdates (applyProductRulesForShop db shopDomain admin payload w)
             = productUpdates w @ [(shopifyProductId m, T)] \<and>
           shopifyProductId m = ''gid://shopify/Product/'' @ decimal (payload_id payload) \<and>
           set T = set (existingTags m) \<union> set ruleTags))"
proof -
  let ?w' = "applyProductRulesForShop db shopDomain admin payload w"
  let ?m = "mapWebhookPayloadToProduct payload"
  have cases: "productUpdates ?w' = productUpdates w \<or>
               (\<exists>c. productUpdates ?w' = productUpdates w @ [c])"
  proof (cases "shop db shopDomain")
    case None
    then show ?thesis by (simp add: apply_no_shop)
  next
    case (Some sid)
    show ?thesis
    proof (cases "mergeProductTags (existingTags ?m)
           (evaluateProductRules (productForEvaluation ?m) (getRulesForShop db sid))")
      case None
      with Some have "?w' = w" by (simp add: apply_unchanged)
      then show ?thesis by simp
    next
      case (Some T)
      with \<open>shop db shopDomain = Some sid\<close> show ?thesis
        by (simp add: apply_one_update)
    qed
  qed
  have 1: "length (productUpdates ?w') \<le> length (productUpdates w) + 1"
    using cases by auto
  have 2: "take (length (productUpdates w)) (productUpdates ?w') = productUpdates w"
    using cases by auto
  have 3: "shop db shopDomain = None \<longrightarrow> productUpdates ?w' = productUpdates w"
    by (simp add: apply_no_shop)
  have 4: "shopifyProductId ?m = ''gid://shopify/Product/'' @ decimal (payload_id payload)"
    by (simp add: mapWebhookPayloadToProduct_def)
  show ?thesis
  proof (intro conjI allI impI)
    show "length (productUpdates ?w') \<le> length (productUpdates w) + 1" by (rule 1)
    show "take (length (productUpdates w)) (productUpdates ?w') = productUpdates w" by (rule 2)
  next
    assume "shop db shopDomain = None"
    with 3 show "productUpdates ?w' = productUpdates w" by simp
  next
    fix sid rules m ruleTags
    assume h: "shop db shopDomain = Some sid \<and> rules = getRulesForShop db sid \<and>
      m = mapWebhookPayloadToProduct payload \<and>
      ruleTags = evaluateProductRules (productForEvaluation m) rules"
    from h have s: "shop db shopDomain = Some sid" by blast
    from h have e: "ruleTags = evaluateProductRules
        (productForEvaluation (mapWebhookPayloadToProduct payload)) (getRulesForShop db sid)"
      and m: "m = mapWebhookPayloadToProduct payload" and r: "rules = getRulesForShop db sid"
      by blast+
    { assume "rules = []"
      with r have "getRulesForShop db sid = []" by simp
      with s show "?w' = w" by (simp add: apply_unchanged) }
    { assume "ruleTags = []"
      with e have "evaluateProductRules
        (productForEvaluation (mapWebhookPayloadToProduct payload)) (getRulesForShop db sid) = []"
        by simp
      with s show "?w' = w" by (simp add: apply_unchanged) }
    { assume "mergeProductTags (existingTags m) ruleTags = None"
      with e m have "mergeProductTags (existingTags (mapWebhookPayloadToProduct payload))
        (evaluateProductRules (productForEvaluation (mapWebhookPayloadToProduct payload))
           (getRulesForShop db sid)) = None"
        by simp
      with s show "?w' = w" by (simp add: apply_unchanged) }
    { fix T
      assume t: "rules \<noteq> [] \<and> ruleTags \<noteq> [] \<and> mergeProductTags (existingTags m) ruleTags = Some T"
      with e m have "mergeProductTags (existingTags (mapWebhookPayloadToProduct payload))
        (evaluateProductRules (productForEvaluation (mapWebhookPayloadToProduct payload))
           (getRulesForShop db sid)) = Some T"
        by simp
      from apply_one_update [OF s this] m
      show "productUpdates ?w' = productUpdates w @ [(shopifyProductId m, T)]"
        by simp
      from m 4 show "shopifyProductId m = ''gid://shopify/Product/'' @ decimal (payload_id payload)"
        by simp
      from t show "set T = set (existingTags m) \<union> set ruleTags"
        by (simp add: merge_Some_set) }
  qed
qed

theorem applier_mutation_discipline_witness:
  "productUpdates (applyProductRulesForShop
      \<lparr>shop = (\<lambda>d. if d = ''acme.example'' then Some ''s1'' else None),
        productRule =
          [\<lparr>rule_id = ''r0'', shopId = ''s2'', field = ''price'', operator = ''lt'',
             rule_value = ''10'', tag = ''cheap'', enabled = True, createdAt = 0\<rparr>,
           \<lparr>rule_id = ''r1'', shopId = ''s1'', field = ''price'', operator = ''gt'',
             rule_value = ''100'', tag = ''expensive'', enabled = True, createdAt = 1\<rparr>]\<rparr>
      ''acme.example'' (\<lambda>pid ts. [])
      \<lparr>payload_id = 42, payload_vendor = None,
        variants = Some [\<lparr>variant_price = Some ''120'', inventory_quantity = Some 3\<rparr>],
        tags = Some ''sale''\<rparr>
      \<lparr>productUpdates = [], console = []\<rparr>)
     = [(''gid://shopify/Product/42'', [''sale'', ''expensive''])] \<and>
   applyProductRulesForShop
      \<lparr>shop = (\<lambda>d. if d = ''acme.example'' then Some ''s1'' else None),
        productRule =
          [\<lparr>rule_id = ''r0'', shopId = ''s2'', field = ''price'', operator = ''lt'',
             rule_value = ''10'', tag = ''cheap'', enabled = True, createdAt = 0\<rparr>,
           \<lparr>rule_id = ''r1'', shopId = ''s1'', field = ''price'', operator = ''gt'',
             rule_value = ''100'', tag = ''expensive'', enabled = True, createdAt = 1\<rparr>]\<rparr>
      ''acme.example'' (\<lambda>pid ts. [])
      \<lparr>payload_id = 42, payload_vendor = None,
        variants = Some [\<lparr>variant_price = Some ''120'', inventory_quantity = Some 3\<rparr>],
        tags = Some ''sale, expensive''\<rparr>
      \<lparr>productUpdates = [], console = []\<rparr>
     = \<lparr>productUpdates = [], console = []\<rparr>"
proof -
  let ?r0 = "\<lparr>rule_id = ''r0'', shopId = ''s2'', field = ''price'', operator = ''lt'',
             rule_value = ''10'', tag = ''cheap'', enabled = True, createdAt = 0\<rparr>"
  let ?r1 = "\<lparr>rule_id = ''r1'', shopId = ''s1'', field = ''price'', operator = ''gt'',
             rule_value = ''100'', tag = ''expensive'', enabled = True, createdAt = 1\<rparr>"
  let ?db = "\<lparr>shop = (\<lambda>d. if d = ''acme.example'' then Some ''s1'' else None),
             productRule = [?r0, ?r1]\<rparr>"
  let ?admin = "\<lambda>pid ts. [] :: UserError list"
  let ?vs = "Some [\<lparr>variant_price = Some ''120'', inventory_quantity = Some 3\<rparr>]"
  let ?first = "\<lparr>payload_id = 42, payload_vendor = None, variants = ?vs, tags = Some ''sale''\<rparr>"
  let ?again = "\<lparr>payload_id = 42, payload_vendor = None, variants = ?vs,
                 tags = Some ''sale, expensive''\<rparr>"
  let ?w = "\<lparr>productUpdates = [], console = []\<rparr>"
  have s: "shop ?db ''acme.example'' = Some ''s1''" by simp
  have r: "[?r1] = getRulesForShop ?db ''s1''" by code_simp
  have e1: "[''expensive''] =
      evaluateProductRules (productForEvaluation (mapWebhookPayloadToProduct ?first)) [?r1]"
    by code_simp
  have e2: "[''expensive''] =
      evaluateProductRules (productForEvaluation (mapWebhookPayloadToProduct ?again)) [?r1]"
    by code_simp
  have g1: "mergeProductTags (existingTags (mapWebhookPayloadToProduct ?first)) [''expensive'']
              = Some [''sale'', ''expensive'']"
    by code_simp
  have g2: "mergeProductTags (existingTags (mapWebhookPayloadToProduct ?again)) [''expensive'']
              = None"
    by code_simp
  have i: "shopifyProductId (mapWebhookPayloadToProduct ?first) = ''gid://shopify/Product/42''"
    by code_simp
  note d1 = applier_mutation_discipline [of ?db "''acme.example''" ?admin ?first ?w,
      THEN conjunct2, THEN conjunct2, THEN conjunct2, rule_format,
      of "''s1''" "[?r1]" "mapWebhookPayloadToProduct ?first" "[''expensive'']"]
  note d2 = applier_mutation_discipline [of ?db "''acme.example''" ?admin ?again ?w,
      THEN conjunct2, THEN conjunct2, THEN conjunct2, rule_format,
      of "''s1''" "[?r1]" "mapWebhookPayloadToProduct ?again" "[''expensive'']"]
  have p1: "shop ?db ''acme.example'' = Some ''s1'' \<and> [?r1] = getRulesForShop ?db ''s1'' \<and>
      mapWebhookPayloadToProduct ?first = mapWebhookPayloadToProduct ?first \<and>
      [''expensive''] =
        evaluateProductRules (productForEvaluation (mapWebhookPayloadToProduct ?first)) [?r1]"
    using s r e1 by blast
  have p2: "shop ?db ''acme.example'' = Some ''s1'' \<and> [?r1] = getRulesForShop ?db ''s1'' \<and>
      mapWebhookPayloadToProduct ?again = mapWebhookPayloadToProduct ?again \<and>
      [''expensive''] =
        evaluateProductRules (productForEvaluation (mapWebhookPayloadToProduct ?again)) [?r1]"
    using s r e2 by blast
  have "[?r1] \<noteq> [] \<and> [''expensive''] \<noteq> [] \<and>
        mergeProductTags (existingTags (mapWebhookPayloadToProduct ?first)) [''expensive'']
          = Some [''sale'', ''expensive'']"
    using g1 by simp
  from d1 [OF p1, THEN conjunct2, THEN conjunct2, THEN conjunct2, rule_format, OF this] i
  have 1: "productUpdates (applyProductRulesForShop ?db ''acme.example'' ?admin ?first ?w)
             = [(''gid://shopify/Product/42'', [''sale'', ''expensive''])]"
    by simp
  from d2 [OF p2, THEN conjunct2, THEN conjunct2, THEN conjunct1] g2
  have 2: "applyProductRulesForShop ?db ''acme.example'' ?admin ?again ?w = ?w"
    by blast
  from 1 2 show ?thesis by blast
qed

end
